theory Spec2Isabelle
  imports Complex_Main "HOL-Library.Sublist"
begin

section \<open>Errors and database faults\<close>

text \<open>
  Go error values. \<open>ErrNoRows\<close> is \<open>sql.ErrNoRows\<close>, \<open>Canceled\<close> and
  \<open>DeadlineExceeded\<close> are the two values \<open>ctx.Err()\<close> can return, \<open>Err m\<close> is an
  error built by \<open>fmt.Errorf\<close> without \<open>%w\<close> (or any driver error with message \<open>m\<close>),
  and \<open>Wrap p e\<close> is \<open>fmt.Errorf(p + ": %w", e)\<close>. \<open>Panic m\<close> stands for a run-time
  panic that leaves the function (an index out of range), which is not an error value
  of the program but is an outcome of a call all the same.
\<close>

datatype error =
    ErrNoRows
  | Canceled
  | DeadlineExceeded
  | Err string
  | Wrap string error
  | Panic string

fun Error :: "error \<Rightarrow> string" where
  "Error ErrNoRows = ''sql: no rows in result set''"
| "Error Canceled = ''context canceled''"
| "Error DeadlineExceeded = ''context deadline exceeded''"
| "Error (Err m) = m"
| "Error (Wrap p e) = p @ '': '' @ Error e"
| "Error (Panic m) = ''panic: '' @ m"

text \<open>
  \<open>strings.Contains s substr\<close>: \<open>substr\<close> occurs in \<open>s\<close> as a contiguous block.
\<close>

fun Contains :: "string \<Rightarrow> string \<Rightarrow> bool" where
  "Contains [] substr = (substr = [])"
| "Contains (c # s) substr = (prefix substr (c # s) \<or> Contains s substr)"

text \<open>The verb \<open>%d\<close> of \<open>fmt\<close> on a non-negative integer.\<close>

fun fmt_d :: "nat \<Rightarrow> string" where
  "fmt_d n =
     (if n < 10 then [char_of (48 + n)]
      else fmt_d (n div 10) @ [char_of (48 + n mod 10)])"

section \<open>Retry with exponential backoff (package db, libsql version)\<close>

declare fmt_d.simps [simp del]

text \<open>
  \<open>isSQLiteTransientError\<close>: the \<open>err == nil\<close> case is the \<open>None\<close> of the caller.
\<close>

definition isSQLiteTransientError :: "error option \<Rightarrow> bool" where
  "isSQLiteTransientError err =
     (case err of
        None \<Rightarrow> False
      | Some e \<Rightarrow>
          (let errMsg = Error e
           in Contains errMsg ''database is locked'' \<or>
              Contains errMsg ''busy'' \<or>
              Contains errMsg ''connection reset by peer''))"

text \<open>\<open>time.Duration\<close> counts nanoseconds.\<close>

definition Millisecond :: int where
  "Millisecond = 1000000"

definition retries :: nat where
  "retries = 3"

definition backoff :: int where
  "backoff = 100 * Millisecond"

text \<open>
  The result of \<open>ExecuteWithRetry\<close>. \<open>rr_err\<close> is the returned error (\<open>None\<close> is
  \<open>nil\<close>) and \<open>rr_state\<close> the state the operation's closure left behind. The two
  remaining fields are a trace of what the call did: \<open>rr_sleeps\<close> are the arguments
  of the calls of \<open>time.Sleep\<close>, in order, and \<open>rr_outcomes\<close> the values returned by
  the invocations of \<open>operation\<close>, in order.
\<close>

record 's retry_result =
  rr_err :: "error option"
  rr_state :: 's
  rr_sleeps :: "int list"
  rr_outcomes :: "error option list"

text \<open>
  The \<open>for attempt := 0; attempt <= retries; attempt++\<close> loop of \<open>ExecuteWithRetry\<close>,
  entered at \<open>attempt\<close> with the current \<open>lastErr\<close>. The operation is a closure over
  mutable state: it maps the state to its returned error and the new state.
\<close>

function retry_loop ::
  "('s \<Rightarrow> error option \<times> 's) \<Rightarrow> nat \<Rightarrow> error option \<Rightarrow> 's \<Rightarrow> int list \<Rightarrow>
   error option list \<Rightarrow> 's retry_result" where
  "retry_loop operation attempt lastErr s sleeps outs =
     (if attempt \<le> retries then
        (let sleeps' = (if attempt > 0
                        then sleeps @ [backoff * 2 ^ (attempt - 1)]
                        else sleeps);
             (err, s') = operation s;
             outs' = outs @ [err]
         in if err \<noteq> None then
              (if isSQLiteTransientError err
               then retry_loop operation (attempt + 1) err s' sleeps' outs'
               else \<lparr>rr_err = err, rr_state = s', rr_sleeps = sleeps', rr_outcomes = outs'\<rparr>)
            else \<lparr>rr_err = None, rr_state = s', rr_sleeps = sleeps', rr_outcomes = outs'\<rparr>)
      else
        \<lparr>rr_err = Some (case lastErr of
                          Some e \<Rightarrow> Wrap (''database operation failed after '' @
                                          fmt_d (retries + 1) @ '' attempts'') e
                        | None \<Rightarrow> Err (''database operation failed after '' @
                                        fmt_d (retries + 1) @ '' attempts: %!w(<nil>)'')),
         rr_state = s, rr_sleeps = sleeps, rr_outcomes = outs\<rparr>)"
  by pat_completeness auto
termination
  by (relation "measure (\<lambda>(operation, attempt, lastErr, s, sleeps, outs). retries + 1 - attempt)")
     auto

declare retry_loop.simps [simp del]

definition ExecuteWithRetry :: "('s \<Rightarrow> error option \<times> 's) \<Rightarrow> 's \<Rightarrow> 's retry_result" where
  "ExecuteWithRetry operation s = retry_loop operation 0 None s [] []"

text \<open>
  The invocations of \<open>operation\<close> follow one another on the state the closure
  threads, starting from \<open>s\<close>: \<open>nth_state operation s i\<close> is the state in which
  invocation \<open>i\<close> (counted from 0) starts and \<open>nth_outcome operation s i\<close> the error
  it returns.
\<close>

definition nth_state :: "('s \<Rightarrow> error option \<times> 's) \<Rightarrow> 's \<Rightarrow> nat \<Rightarrow> 's" where
  "nth_state operation s i = ((\<lambda>t. snd (operation t)) ^^ i) s"

definition nth_outcome :: "('s \<Rightarrow> error option \<times> 's) \<Rightarrow> 's \<Rightarrow> nat \<Rightarrow> error option" where
  "nth_outcome operation s i = fst (operation (nth_state operation s i))"

text \<open>
  What a finished run of the loop on \<open>operation\<close> from \<open>s\<close> looks like, as a
  predicate on its result: the operation was invoked \<open>n\<close> times in a row, with
  \<open>1 \<le> n \<le> 4\<close>; each invocation but the last returned a transient error and the
  last one did not, unless it was the fourth; the sleeps double from 100 ms; and the
  returned error is determined by the last outcome.
\<close>

definition retry_post :: "('s \<Rightarrow> error option \<times> 's) \<Rightarrow> 's \<Rightarrow> 's retry_result \<Rightarrow> bool" where
  "retry_post operation s r =
     (let n = length (rr_outcomes r) in
      1 \<le> n \<and> n \<le> 1 + 3 \<and>
      rr_outcomes r = map (nth_outcome operation s) [0 ..< n] \<and>
      rr_state r = nth_state operation s n \<and>
      (\<forall>i. Suc i < n \<longrightarrow> isSQLiteTransientError (nth_outcome operation s i)) \<and>
      (isSQLiteTransientError (nth_outcome operation s (n - 1)) \<longrightarrow> n = 1 + 3) \<and>
      rr_sleeps r = map (\<lambda>k. 100 * Millisecond * 2 ^ k) [0 ..< n - 1] \<and>
      rr_err r = (case nth_outcome operation s (n - 1) of
                    None \<Rightarrow> None
                  | Some e \<Rightarrow> if isSQLiteTransientError (Some e)
                             then Some (Wrap ''database operation failed after 4 attempts'' e)
                             else Some e))"

section \<open>Binary floating point\<close>

text \<open>
  A \<open>float64\<close> of Go and a \<open>REAL\<close> (\<open>float4\<close>) of PostgreSQL are the rational
  numbers they denote. Converting to either type, and every arithmetic operation on
  \<open>float64\<close>, rounds the exact result to the nearest number with a significand of 53
  or 24 bits, ties going to the even significand. The exponent is not bounded here:
  the magnitudes the progress computation meets lie between \<open>2 ^ -63\<close> and
  \<open>2 ^ 70\<close>, far inside the normal range of both formats.

  \<open>log2_floor x\<close> is the exponent of a positive \<open>x\<close>, the integer \<open>e\<close> with
  \<open>2 ^ e \<le> x < 2 ^ (e + 1)\<close>: found by halving while \<open>x \<ge> 2\<close> and by doubling
  while \<open>x < 1\<close>.
\<close>

function log2_up :: "rat \<Rightarrow> nat" where
  "log2_up x = (if x < 2 then 0 else Suc (log2_up (x / 2)))"
  by pat_completeness auto
termination
proof (relation "measure (\<lambda>x. nat \<lceil>x\<rceil>)")
  show "wf (measure (\<lambda>x::rat. nat \<lceil>x\<rceil>))" by simp
next
  fix x :: rat
  assume "\<not> x < 2"
  then have "x / 2 \<le> x - 1" by simp
  then have "\<lceil>x / 2\<rceil> \<le> \<lceil>x - 1\<rceil>" by (rule ceiling_mono)
  moreover have "0 < \<lceil>x\<rceil>" using \<open>\<not> x < 2\<close> by simp
  ultimately show "(x / 2, x) \<in> measure (\<lambda>x. nat \<lceil>x\<rceil>)" by simp
qed

function log2_down :: "rat \<Rightarrow> nat" where
  "log2_down x = (if x \<le> 0 \<or> 1 \<le> x then 0 else Suc (log2_down (x * 2)))"
  by pat_completeness auto
termination
proof (relation "measure (\<lambda>x. nat \<lceil>1 / x\<rceil>)")
  show "wf (measure (\<lambda>x::rat. nat \<lceil>1 / x\<rceil>))" by simp
next
  fix x :: rat
  assume a: "\<not> (x \<le> 0 \<or> 1 \<le> x)"
  then have x: "0 < x" "x < 1" by simp_all
  then have y: "1 < 1 / x" by simp
  then have c: "2 \<le> \<lceil>1 / x\<rceil>" by linarith
  have "1 / x \<le> of_int \<lceil>1 / x\<rceil>" by simp
  then have "1 / (x * 2) \<le> of_int \<lceil>1 / x\<rceil> / 2" by simp
  also have "\<dots> \<le> of_int (\<lceil>1 / x\<rceil> - 1)" using c by simp
  finally have "\<lceil>1 / (x * 2)\<rceil> \<le> \<lceil>1 / x\<rceil> - 1" by (rule ceiling_le)
  with c x show "(x * 2, x) \<in> measure (\<lambda>x. nat \<lceil>1 / x\<rceil>)" by simp
qed

declare log2_up.simps [simp del] log2_down.simps [simp del]

definition log2_floor :: "rat \<Rightarrow> int" where
  "log2_floor x = (if 1 \<le> x then int (log2_up x) else - int (log2_down x))"

text \<open>Rounding a rational to the nearest integer, a tie going to the even one.\<close>

definition round_half_even :: "rat \<Rightarrow> int" where
  "round_half_even x =
     (let f = \<lfloor>x\<rfloor>; d = x - of_int f
      in if d < 1 / 2 then f
         else if 1 / 2 < d then f + 1
         else if even f then f else f + 1)"

definition pow2 :: "int \<Rightarrow> rat" where
  "pow2 e = (if 0 \<le> e then 2 ^ nat e else 1 / 2 ^ nat (- e))"

text \<open>
  \<open>round_binary p x\<close>: \<open>x\<close> as a multiple of the unit in the last of \<open>p\<close> places,
  rounded to an integer number of units.
\<close>

definition round_binary :: "nat \<Rightarrow> rat \<Rightarrow> rat" where
  "round_binary p x =
     (if x = 0 then 0
      else (let ulp = pow2 (log2_floor \<bar>x\<bar> - int p + 1)
            in of_int (round_half_even (x / ulp)) * ulp))"

definition float64 :: "rat \<Rightarrow> rat" where
  "float64 = round_binary 53"

definition float4 :: "rat \<Rightarrow> rat" where
  "float4 = round_binary 24"

section \<open>The jobs and tasks tables\<close>

text \<open>
  A row of \<open>jobs\<close> with the columns the scheduling code reads or writes. Statuses are
  the strings the SQL statements compare and store. \<open>progress\<close> is the column of type
  \<open>REAL\<close>, holding the rational its value denotes. Times are points on an integer
  clock, and a nullable time column is an \<open>option\<close>.
\<close>

record job =
  j_id :: string
  j_domain :: string
  j_status :: string
  j_progress :: rat
  j_total_tasks :: int
  j_completed_tasks :: int
  j_failed_tasks :: int
  j_started_at :: "int option"
  j_completed_at :: "int option"

text \<open>
  A row of \<open>tasks\<close>, which is also the struct \<open>Task\<close> of package \<open>db\<close>: one field per
  struct field, named after the column. The zero \<open>time.Time\<close> and a \<open>NULL\<close> time are
  \<open>None\<close>.
\<close>

record task =
  t_id :: string
  t_job_id :: string
  t_page_id :: int
  t_path :: string
  t_status :: string
  t_depth :: int
  t_created_at :: int
  t_started_at :: "int option"
  t_completed_at :: "int option"
  t_retry_count :: int
  t_error :: string
  t_source_type :: string
  t_source_url :: string
  t_status_code :: int
  t_response_time :: int
  t_cache_status :: string
  t_content_type :: string

text \<open>
  The database: both tables as lists of rows, in storage order. \<open>id\<close> is the primary
  key of \<open>jobs\<close>; a statement \<open>UPDATE ... WHERE id = x\<close> is a \<open>map\<close> that rewrites the
  rows with that id.
\<close>

record db =
  jobs :: "job list"
  tasks :: "task list"

text \<open>
  Every call into \<open>database/sql\<close> can fail. A fault plan says, for each call site,
  whether the call fails and with which error; \<open>no_faults\<close> is a database that answers.
\<close>

datatype dbcall =
    BeginTx
  | Commit
  | QueryRow
  | ExecJobs
  | ExecTasks
  | Prepare
  | ExecInsert nat
  | GetJobQuery
  | MonitorQuery

type_synonym faults = "dbcall \<Rightarrow> error option"

definition no_faults :: faults where
  "no_faults = (\<lambda>c. None)"

section \<open>The row-locking queue (package db, \<open>internal/db/queue.go\<close>)\<close>

text \<open>
  \<open>DbQueue.Execute\<close>: run \<open>fn\<close> in a transaction. \<open>fn\<close> works on the transaction's
  view of the database and returns an error or its result with the updated view; the
  view becomes the database only when \<open>Commit\<close> succeeds, the deferred \<open>Rollback\<close>
  discards it otherwise.
\<close>

definition Execute :: "faults \<Rightarrow> db \<Rightarrow> (db \<Rightarrow> error + 'a \<times> db) \<Rightarrow> (error + 'a) \<times> db" where
  "Execute F d fn =
     (case F BeginTx of
        Some err \<Rightarrow> (Inl (Wrap ''failed to begin transaction'' err), d)
      | None \<Rightarrow>
          (case fn d of
             Inl err \<Rightarrow> (Inl err, d)
           | Inr (a, tx) \<Rightarrow>
               (case F Commit of
                  Some err \<Rightarrow> (Inl (Wrap ''failed to commit transaction'' err), d)
                | None \<Rightarrow> (Inr a, tx))))"

text \<open>
  The rows the \<open>SELECT\<close> of \<open>GetNextPendingTask\<close> ranges over:
  \<open>WHERE status = 'pending'\<close>, and \<open>AND job_id = $1\<close> when \<open>jobID\<close> is not empty;
  then \<open>ORDER BY created_at ASC\<close>. The sort is stable, so rows with equal \<open>created_at\<close>
  come in storage order, which is one of the orders SQL allows.
\<close>

definition pending_rows :: "string \<Rightarrow> db \<Rightarrow> task list" where
  "pending_rows jobID d =
     filter (\<lambda>t. t_status t = ''pending'' \<and> (jobID \<noteq> [] \<longrightarrow> t_job_id t = jobID)) (tasks d)"

definition select_pending :: "string \<Rightarrow> db \<Rightarrow> task list" where
  "select_pending jobID d = take 1 (sort_key t_created_at (pending_rows jobID d))"

text \<open>
  What \<open>row.Scan\<close> leaves in the zero-initialised \<open>task\<close> variable: the nine selected
  columns, every other field at its zero value.
\<close>

definition scan_task :: "task \<Rightarrow> task" where
  "scan_task r =
     \<lparr>t_id = t_id r, t_job_id = t_job_id r, t_page_id = t_page_id r, t_path = t_path r,
      t_status = [], t_depth = t_depth r, t_created_at = t_created_at r,
      t_started_at = None, t_completed_at = None, t_retry_count = t_retry_count r,
      t_error = [], t_source_type = t_source_type r, t_source_url = t_source_url r,
      t_status_code = 0, t_response_time = 0, t_cache_status = [], t_content_type = []\<rparr>"

definition mark_running :: "int \<Rightarrow> string \<Rightarrow> task \<Rightarrow> task" where
  "mark_running now tid r =
     (if t_id r = tid then r\<lparr>t_status := ''running'', t_started_at := Some now\<rparr> else r)"

definition GetNextPendingTask ::
  "faults \<Rightarrow> int \<Rightarrow> string \<Rightarrow> db \<Rightarrow> (error + task option) \<times> db" where
  "GetNextPendingTask F now jobID d =
     (let (res, d') =
            Execute F d (\<lambda>tx.
              (case (case F QueryRow of
                       Some err \<Rightarrow> Inl err
                     | None \<Rightarrow> (case select_pending jobID tx of
                                  [] \<Rightarrow> Inl ErrNoRows
                                | r # _ \<Rightarrow> Inr (scan_task r))) of
                 Inl err \<Rightarrow>
                   (if err = ErrNoRows then Inl ErrNoRows
                    else Inl (Wrap ''failed to query task'' err))
               | Inr task \<Rightarrow>
                   (case F ExecTasks of
                      Some err \<Rightarrow> Inl (Wrap ''failed to update task status'' err)
                    | None \<Rightarrow>
                        Inr (task\<lparr>t_status := ''running'', t_started_at := Some now\<rparr>,
                             tx\<lparr>tasks := map (mark_running now (t_id task)) (tasks tx)\<rparr>))))
      in case res of
           Inl err \<Rightarrow> (if err = ErrNoRows then (Inr None, d') else (Inl err, d'))
         | Inr task \<Rightarrow> (Inr (Some task), d'))"

text \<open>
  The row \<open>EnqueueURLs\<close> inserts: the ten listed columns, every other column at its
  default.
\<close>

definition new_task ::
  "string \<Rightarrow> string \<Rightarrow> int \<Rightarrow> string \<Rightarrow> int \<Rightarrow> int \<Rightarrow> string \<Rightarrow> string \<Rightarrow> task" where
  "new_task taskID jobID pageID path depth now sourceType sourceURL =
     \<lparr>t_id = taskID, t_job_id = jobID, t_page_id = pageID, t_path = path,
      t_status = ''pending'', t_depth = depth, t_created_at = now,
      t_started_at = None, t_completed_at = None, t_retry_count = 0,
      t_error = [], t_source_type = sourceType, t_source_url = sourceURL,
      t_status_code = 0, t_response_time = 0, t_cache_status = [], t_content_type = []\<rparr>"

text \<open>
  The loop \<open>for i, pageID := range pageIDs\<close> of \<open>EnqueueURLs\<close>, entered at index \<open>i\<close>
  with the page ids still to visit. \<open>uuid i\<close> is the identifier \<open>uuid.New()\<close> yields in
  iteration \<open>i\<close>. Reading \<open>paths[i]\<close> beyond the end of \<open>paths\<close> panics.
\<close>

fun insert_loop ::
  "faults \<Rightarrow> int \<Rightarrow> (nat \<Rightarrow> string) \<Rightarrow> string \<Rightarrow> string list \<Rightarrow> string \<Rightarrow> string \<Rightarrow> int \<Rightarrow>
   nat \<Rightarrow> int list \<Rightarrow> db \<Rightarrow> error + unit \<times> db" where
  "insert_loop F now uuid jobID paths sourceType sourceURL depth i [] tx = Inr ((), tx)"
| "insert_loop F now uuid jobID paths sourceType sourceURL depth i (pageID # rest) tx =
     (if pageID = 0
      then insert_loop F now uuid jobID paths sourceType sourceURL depth (i + 1) rest tx
      else if length paths \<le> i then Inl (Panic ''index out of range'')
      else (case F (ExecInsert i) of
              Some err \<Rightarrow> Inl (Wrap ''failed to insert task'' err)
            | None \<Rightarrow>
                insert_loop F now uuid jobID paths sourceType sourceURL depth (i + 1) rest
                  (tx\<lparr>tasks := tasks tx @
                      [new_task (uuid i) jobID pageID (paths ! i) depth now sourceType sourceURL]\<rparr>)))"

definition add_total :: "string \<Rightarrow> int \<Rightarrow> job \<Rightarrow> job" where
  "add_total jobID n j =
     (if j_id j = jobID then j\<lparr>j_total_tasks := j_total_tasks j + n\<rparr> else j)"

definition EnqueueURLs ::
  "faults \<Rightarrow> int \<Rightarrow> (nat \<Rightarrow> string) \<Rightarrow> string \<Rightarrow> int list \<Rightarrow> string list \<Rightarrow> string \<Rightarrow> string \<Rightarrow>
   int \<Rightarrow> db \<Rightarrow> error option \<times> db" where
  "EnqueueURLs F now uuid jobID pageIDs paths sourceType sourceURL depth d =
     (if length pageIDs = 0 then (None, d)
      else
        (let (res, d') =
               Execute F d (\<lambda>tx.
                 (case F ExecJobs of
                    Some err \<Rightarrow> Inl (Wrap ''failed to update job total tasks'' err)
                  | None \<Rightarrow>
                      (let tx1 = tx\<lparr>jobs := map (add_total jobID (int (length pageIDs))) (jobs tx)\<rparr>
                       in case F Prepare of
                            Some err \<Rightarrow> Inl (Wrap ''failed to prepare statement'' err)
                          | None \<Rightarrow>
                              insert_loop F now uuid jobID paths sourceType sourceURL depth
                                0 pageIDs tx1)))
         in case res of Inl err \<Rightarrow> (Some err, d') | Inr u \<Rightarrow> (None, d')))"

text \<open>
  The counts \<open>UpdateJobProgress\<close> selects for a job:
  \<open>COUNT(*) FILTER (WHERE t.status = s)\<close> over the tasks joined to the job.
\<close>

definition count_status :: "string \<Rightarrow> string \<Rightarrow> db \<Rightarrow> int" where
  "count_status jobID s d =
     int (length (filter (\<lambda>t. t_job_id t = jobID \<and> t_status t = s) (tasks d)))"

text \<open>
  The \<open>UPDATE jobs\<close> of \<open>UpdateJobProgress\<close> on one row. \<open>progress\<close> is the
  \<open>float64\<close> the Go code passes as \<open>$1\<close>; the statement uses it as \<open>$1::REAL\<close> in
  all three places, and the two \<open>CASE\<close> expressions depend on that value alone. \<open>now\<close>
  is the value of \<open>NOW()\<close>.
\<close>

definition set_progress :: "int \<Rightarrow> string \<Rightarrow> rat \<Rightarrow> int \<Rightarrow> int \<Rightarrow> job \<Rightarrow> job" where
  "set_progress now jobID progress compCount failCount j =
     (if j_id j = jobID
      then j\<lparr>j_progress := float4 progress,
              j_completed_tasks := compCount,
              j_failed_tasks := failCount,
              j_status := (if float4 progress \<ge> 100 then ''completed'' else j_status j),
              j_completed_at := (if float4 progress \<ge> 100 then Some now
                                 else j_completed_at j)\<rparr>
      else j)"

definition UpdateJobProgress :: "faults \<Rightarrow> int \<Rightarrow> string \<Rightarrow> db \<Rightarrow> error option \<times> db" where
  "UpdateJobProgress F now jobID d =
     (case F BeginTx of
        Some err \<Rightarrow> (Some (Wrap ''failed to begin transaction'' err), d)
      | None \<Rightarrow>
          (case (case F QueryRow of
                   Some err \<Rightarrow> Inl err
                 | None \<Rightarrow> (case filter (\<lambda>j. j_id j = jobID) (jobs d) of
                              [] \<Rightarrow> Inl ErrNoRows
                            | j # _ \<Rightarrow> Inr (j_total_tasks j,
                                             count_status jobID ''completed'' d,
                                             count_status jobID ''failed'' d))) of
             Inl err \<Rightarrow> (Some (Wrap ''failed to get job counts'' err), d)
           | Inr (totalTasks, compCount, failCount) \<Rightarrow>
               (let progress =
                      (if totalTasks > 0
                       then float64 (float64 (float64 (of_int (compCount + failCount)) /
                                               float64 (of_int totalTasks)) * 100)
                       else 0)
                in case F ExecJobs of
                     Some err \<Rightarrow> (Some (Wrap ''failed to update job progress'' err), d)
                   | None \<Rightarrow>
                       (case F Commit of
                          Some err \<Rightarrow> (Some err, d)
                        | None \<Rightarrow>
                            (None,
                             d\<lparr>jobs := map (set_progress now jobID progress compCount failCount)
                                          (jobs d)\<rparr>)))))"

text \<open>
  \<open>CompleteTask\<close>: inside the closure the caller's struct gets status \<open>completed\<close>
  and the completion time, the row with its id is rewritten from it in a transaction,
  and the job's progress is recomputed. The model returns the error and the database,
  not the struct.
\<close>

definition complete_row :: "task \<Rightarrow> task \<Rightarrow> task" where
  "complete_row task r =
     (if t_id r = t_id task
      then r\<lparr>t_status := t_status task, t_completed_at := t_completed_at task,
              t_status_code := t_status_code task, t_response_time := t_response_time task,
              t_cache_status := t_cache_status task, t_content_type := t_content_type task\<rparr>
      else r)"

definition CompleteTask :: "faults \<Rightarrow> int \<Rightarrow> task \<Rightarrow> db \<Rightarrow> error option \<times> db" where
  "CompleteTask F now task d =
     (let (res, d') =
            Execute F d (\<lambda>tx.
              (let task' = task\<lparr>t_status := ''completed'', t_completed_at := Some now\<rparr>
               in case F ExecTasks of
                    Some err \<Rightarrow> Inl err
                  | None \<Rightarrow> Inr ((), tx\<lparr>tasks := map (complete_row task') (tasks tx)\<rparr>)))
      in case res of
           Inl err \<Rightarrow> (Some err, d')
         | Inr u \<Rightarrow>
             (if t_job_id task \<noteq> [] then UpdateJobProgress F now (t_job_id task) d'
              else (None, d')))"

section \<open>The job manager (package jobs, \<open>src/jobs/manager.go\<close>)\<close>

text \<open>
  Modelled from the spec: the status constants of package \<open>jobs\<close>, whose declarations
  are not among the sources. The spec lists the job statuses \<open>pending\<close>, \<open>running\<close>,
  \<open>paused\<close>, \<open>completed\<close>, \<open>cancelled\<close>, \<open>failed\<close> and the task statuses \<open>pending\<close>,
  \<open>running\<close>, \<open>completed\<close>, \<open>failed\<close>, \<open>skipped\<close>.
\<close>

definition JobStatusPending :: string where "JobStatusPending = ''pending''"
definition JobStatusRunning :: string where "JobStatusRunning = ''running''"
definition JobStatusPaused :: string where "JobStatusPaused = ''paused''"
definition JobStatusCancelled :: string where "JobStatusCancelled = ''cancelled''"
definition TaskStatusPending :: string where "TaskStatusPending = ''pending''"
definition TaskStatusSkipped :: string where "TaskStatusSkipped = ''skipped''"

text \<open>
  Modelled from the spec: \<open>GetJob\<close>, which is not among the sources; the spec's
  \<open>get_job(id)\<close> returns the current snapshot of the job. The model reads the row with
  that id and fails when the query fails or no such row exists.
\<close>

definition GetJob :: "faults \<Rightarrow> db \<Rightarrow> string \<Rightarrow> error + job" where
  "GetJob F d jobID =
     (case F GetJobQuery of
        Some err \<Rightarrow> Inl err
      | None \<Rightarrow> (case filter (\<lambda>j. j_id j = jobID) (jobs d) of
                   [] \<Rightarrow> Inl ErrNoRows
                 | j # _ \<Rightarrow> Inr j))"

text \<open>
  Modelled from the spec: \<open>WorkerPool.RemoveJob\<close>, which is not among the sources; the
  spec's \<open>remove_job\<close> takes the job out of the pool's active job set.
\<close>

definition RemoveJob :: "string \<Rightarrow> string set \<Rightarrow> string set" where
  "RemoveJob jobID active = active - {jobID}"

text \<open>What the manager works on: the database and the worker pool's active job set.\<close>

record manager =
  m_db :: db
  m_active :: "string set"

definition cancel_job_row :: "int \<Rightarrow> string \<Rightarrow> job \<Rightarrow> job" where
  "cancel_job_row now jobID j =
     (if j_id j = jobID
      then j\<lparr>j_status := JobStatusCancelled, j_completed_at := Some now\<rparr>
      else j)"

definition skip_pending_row :: "string \<Rightarrow> task \<Rightarrow> task" where
  "skip_pending_row jobID t =
     (if t_job_id t = jobID \<and> t_status t = TaskStatusPending
      then t\<lparr>t_status := TaskStatusSkipped\<rparr>
      else t)"

text \<open>
  \<open>CancelJob\<close>. The two \<open>UPDATE\<close> statements run on the connection, outside any
  transaction. A failure of the second one is logged and not returned.
\<close>

definition CancelJob :: "faults \<Rightarrow> int \<Rightarrow> string \<Rightarrow> manager \<Rightarrow> error option \<times> manager" where
  "CancelJob F now jobID jm =
     (case GetJob F (m_db jm) jobID of
        Inl err \<Rightarrow> (Some (Wrap ''failed to get job'' err), jm)
      | Inr job \<Rightarrow>
          (if j_status job \<noteq> JobStatusRunning \<and> j_status job \<noteq> JobStatusPending \<and>
              j_status job \<noteq> JobStatusPaused
           then (Some (Err (''job cannot be canceled: '' @ j_status job)), jm)
           else
             (case F ExecJobs of
                Some err \<Rightarrow> (Some (Wrap ''failed to update job status'' err), jm)
              | None \<Rightarrow>
                  (let d1 = (m_db jm)\<lparr>jobs := map (cancel_job_row now (j_id job)) (jobs (m_db jm))\<rparr>;
                       active' = RemoveJob (j_id job) (m_active jm);
                       d2 = (case F ExecTasks of
                               Some err \<Rightarrow> d1
                             | None \<Rightarrow> d1\<lparr>tasks := map (skip_pending_row (j_id job)) (tasks d1)\<rparr>)
                   in (None, \<lparr>m_db = d2, m_active = active'\<rparr>)))))"

section \<open>The completion monitor (\<open>main\<close>, \<open>src/common/queue.go\<close>)\<close>

text \<open>
  One tick of the monitor goroutine: the single statement
  \<open>UPDATE jobs SET status = 'completed', completed_at = NOW()
   WHERE (completed_tasks + failed_tasks) >= total_tasks AND status = 'running'
   RETURNING id\<close>.
  The result is the list of returned ids (the ones the loop logs) and the database.
  When the statement fails, the tick logs the error and changes nothing.
\<close>

definition monitor_due :: "job \<Rightarrow> bool" where
  "monitor_due j =
     (j_completed_tasks j + j_failed_tasks j \<ge> j_total_tasks j \<and> j_status j = ''running'')"

definition monitor_row :: "int \<Rightarrow> job \<Rightarrow> job" where
  "monitor_row now j =
     (if monitor_due j then j\<lparr>j_status := ''completed'', j_completed_at := Some now\<rparr> else j)"

definition completion_monitor_tick :: "faults \<Rightarrow> int \<Rightarrow> db \<Rightarrow> string list \<times> db" where
  "completion_monitor_tick F now d =
     (case F MonitorQuery of
        Some err \<Rightarrow> ([], d)
      | None \<Rightarrow> (map j_id (filter monitor_due (jobs d)),
                 d\<lparr>jobs := map (monitor_row now) (jobs d)\<rparr>))"

section \<open>The serialized writer (package common, \<open>src/common/queue.go\<close>)\<close>

text \<open>
  A context is observed through \<open>ctx.Err()\<close>: \<open>None\<close> while it is live, the
  cancellation error once it is done. A \<open>DbOperation\<close> carries its function, which
  maps the transaction's view of the store to the returned error and the updated view,
  and its context, which may be \<open>nil\<close> (\<open>None\<close>). \<open>Ctx\<close> is what the executor observes
  when it picks the unit up.
\<close>

type_synonym go_context = "error option"

record 'd DbOperation =
  Fn :: "'d \<Rightarrow> error option \<times> 'd"
  Ctx :: "go_context option"

text \<open>
  The queue's side of the database: the committed store, the transaction events the
  executor has caused so far, and the \<open>stopped\<close> flag.
\<close>

datatype tx_event = EvBegin | EvRollback | EvCommit

record 'd DbQueue =
  store :: 'd
  txlog :: "tx_event list"
  stopped :: bool

text \<open>
  What becomes of a unit: \<open>Replied err\<close> when the executor sends \<open>err\<close> on the unit's
  \<open>Done\<close> channel, \<open>Panicked\<close> when the goroutine panics instead and nothing is sent.
\<close>

datatype reply = Replied "error option" | Panicked

text \<open>
  The body of the loop \<open>for op := range q.operations\<close>: what becomes of the unit, and
  the queue afterwards. The test \<open>op.Ctx != nil && op.Ctx.Err() != nil\<close> lets a \<open>nil\<close>
  context through to \<open>q.db.BeginTx(op.Ctx, nil)\<close>, which calls \<open>Done\<close> on it and
  panics. \<open>EvBegin\<close> records a transaction that was opened, \<open>EvCommit\<close> a call of
  \<open>tx.Commit\<close>; when that call fails the store keeps its old value.
\<close>

definition processOperation ::
  "faults \<Rightarrow> 'd DbQueue \<Rightarrow> 'd DbOperation \<Rightarrow> reply \<times> 'd DbQueue" where
  "processOperation F q op =
     (case Ctx op of
        Some (Some cerr) \<Rightarrow> (Replied (Some cerr), q)
      | None \<Rightarrow> (Panicked, q)
      | Some None \<Rightarrow>
        (case F BeginTx of
           Some err \<Rightarrow> (Replied (Some err), q)
         | None \<Rightarrow>
             (let q1 = q\<lparr>txlog := txlog q @ [EvBegin]\<rparr>;
                  (err, tx) = Fn op (store q)
              in if err \<noteq> None then (Replied err, q1\<lparr>txlog := txlog q1 @ [EvRollback]\<rparr>)
                 else
                   (let err' = F Commit;
                        q2 = q1\<lparr>txlog := txlog q1 @ [EvCommit]\<rparr>
                    in (Replied err', if err' = None then q2\<lparr>store := tx\<rparr> else q2)))))"




section \<open>Sample rows\<close>

text \<open>Rows for the concrete runs below: a job and a task with the given key fields.\<close>

definition mk_job :: "string \<Rightarrow> string \<Rightarrow> int \<Rightarrow> int option \<Rightarrow> job" where
  "mk_job jid st n done_at =
     \<lparr>j_id = jid, j_domain = ''example.com'', j_status = st, j_progress = 0,
      j_total_tasks = n, j_completed_tasks = 0, j_failed_tasks = 0,
      j_started_at = Some 1, j_completed_at = done_at\<rparr>"

definition mk_task :: "string \<Rightarrow> string \<Rightarrow> string \<Rightarrow> int \<Rightarrow> task" where
  "mk_task tid jid st created =
     (new_task tid jid 1 ''/'' 0 created ''manual'' [])\<lparr>t_status := st\<rparr>"

section \<open>Basic facts\<close>

lemma no_faults_apply [simp]: "no_faults c = None"
  by (simp add: no_faults_def)

lemma float4_0: "float4 0 = 0"
  by (simp add: float4_def round_binary_def)

lemma float64_1: "float64 1 = 1"
  by code_simp

lemma float64_100: "float64 100 = 100"
  by code_simp

lemma float4_100: "float4 100 = 100"
  by code_simp

section \<open>Verification: binary rounding\<close>

text \<open>
  \<open>log2_floor\<close> is the binary exponent: a positive \<open>x\<close> lies between
  \<open>2 ^ log2_floor x\<close> and twice that.
\<close>

lemma log2_up_bounds: "1 \<le> x \<Longrightarrow> 2 ^ log2_up x \<le> x \<and> x < 2 * 2 ^ log2_up x"
proof (induction x rule: log2_up.induct)
  case (1 x)
  show ?case
  proof (cases "x < 2")
    case True
    with "1.prems" show ?thesis by (subst (1 2) log2_up.simps) simp
  next
    case False
    then have "1 \<le> x / 2" by simp
    with "1.IH" [OF False] have "2 ^ log2_up (x / 2) \<le> x / 2 \<and> x / 2 < 2 * 2 ^ log2_up (x / 2)"
      by simp
    with False show ?thesis by (subst (1 2) log2_up.simps) simp
  qed
qed

lemma log2_down_bounds:
  "0 < x \<Longrightarrow> x < 1 \<Longrightarrow> 1 \<le> x * 2 ^ log2_down x \<and> x * 2 ^ log2_down x < 2"
proof (induction x rule: log2_down.induct)
  case (1 x)
  show ?case
  proof (cases "x * 2 < 1")
    case True
    from "1.prems" have c: "\<not> (x \<le> 0 \<or> 1 \<le> x)" by simp
    from "1.IH" [OF c] "1.prems" True
    have "1 \<le> x * 2 * 2 ^ log2_down (x * 2) \<and> x * 2 * 2 ^ log2_down (x * 2) < 2" by simp
    with c show ?thesis by (subst (1 2) log2_down.simps) (simp add: mult.assoc)
  next
    case False
    from "1.prems" have c: "\<not> (x \<le> 0 \<or> 1 \<le> x)" by simp
    have z: "log2_down (x * 2) = 0" using False by (subst log2_down.simps) simp
    from c False "1.prems" show ?thesis by (subst (1 2) log2_down.simps) (simp add: z)
  qed
qed

lemma log2_floor_bounds:
  assumes "0 < x"
  shows "pow2 (log2_floor x) \<le> x \<and> x < 2 * pow2 (log2_floor x)"
proof (cases "1 \<le> x")
  case True
  with log2_up_bounds [OF True] show ?thesis by (simp add: log2_floor_def pow2_def)
next
  case False
  with assms have "1 \<le> x * 2 ^ log2_down x \<and> x * 2 ^ log2_down x < 2"
    using log2_down_bounds by simp
  moreover from this False have "0 < log2_down x"
    by (cases "log2_down x = 0") simp_all
  moreover have "(0::rat) < 2 ^ log2_down x" by simp
  ultimately show ?thesis using False
    by (simp add: log2_floor_def pow2_def field_simps)
qed

text \<open>Rounding to an integer moves a number by at most one half.\<close>

lemma round_half_even_near: "\<bar>of_int (round_half_even x) - x\<bar> \<le> 1 / 2"
  unfolding round_half_even_def Let_def by (auto simp: abs_if) linarith+

section \<open>Verification: retry with backoff\<close>


lemma fmt_d_4: "fmt_d 4 = ''4''"
  by code_simp

lemma fmt_d_retries: "fmt_d (retries + 1) = ''4''"
  using fmt_d_4 by (simp add: retries_def)

lemma transient_not_None: "isSQLiteTransientError err \<Longrightarrow> err \<noteq> None"
  by (cases err) (simp_all add: isSQLiteTransientError_def)

lemma nth_state_0: "nth_state operation s 0 = s"
  by (simp add: nth_state_def)

lemma nth_state_Suc:
  "nth_state operation s (Suc i) = snd (operation (nth_state operation s i))"
  by (simp add: nth_state_def)

lemma retry_loop_post:
  "outs = map (nth_outcome operation s0) [0 ..< attempt] \<Longrightarrow>
   s = nth_state operation s0 attempt \<Longrightarrow>
   sleeps = map (\<lambda>k. backoff * 2 ^ k) [0 ..< attempt - 1] \<Longrightarrow>
   \<forall>i < attempt. isSQLiteTransientError (nth_outcome operation s0 i) \<Longrightarrow>
   (0 < attempt \<longrightarrow> lastErr = nth_outcome operation s0 (attempt - 1)) \<Longrightarrow>
   attempt \<le> retries + 1 \<Longrightarrow>
   retry_post operation s0 (retry_loop operation attempt lastErr s sleeps outs)"
proof (induction operation attempt lastErr s sleeps outs rule: retry_loop.induct)
  case (1 operation attempt lastErr s sleeps outs)
  note outs = "1.prems"(1) and st = "1.prems"(2) and sl0 = "1.prems"(3)
    and trs = "1.prems"(4) and last = "1.prems"(5) and bound = "1.prems"(6)
  show ?case
  proof (cases "attempt \<le> retries")
    case False
    with bound have a: "attempt = 4" by (simp add: retries_def)
    with trs have tr: "isSQLiteTransientError (nth_outcome operation s0 3)" by simp
    then obtain e where e: "nth_outcome operation s0 3 = Some e"
      using transient_not_None by fastforce
    have len: "length outs = 4" using outs a by simp
    show ?thesis
      apply (subst retry_loop.simps)
      using a e outs st sl0 trs last tr len
      by (simp add: retries_def retry_post_def backoff_def fmt_d_4)
  next
    case True
    obtain err s' where op: "operation s = (err, s')" by (cases "operation s")
    have err: "err = nth_outcome operation s0 attempt"
      using op st by (simp add: nth_outcome_def)
    have s': "s' = nth_state operation s0 (Suc attempt)"
      using op st by (simp add: nth_state_Suc)
    define sleeps' where
      "sleeps' = (if attempt > 0 then sleeps @ [backoff * 2 ^ (attempt - 1)] else sleeps)"
    have sl: "sleeps' = map (\<lambda>k. backoff * 2 ^ k) [0 ..< attempt]"
      using sl0 by (cases attempt) (simp_all add: sleeps'_def)
    have outs': "outs @ [err] = map (nth_outcome operation s0) [0 ..< Suc attempt]"
      using outs err by simp
    show ?thesis
    proof (cases "isSQLiteTransientError err")
      case tr: True
      then have nn: "err \<noteq> None" by (rule transient_not_None)
      have trs': "\<forall>i < attempt + 1. isSQLiteTransientError (nth_outcome operation s0 i)"
        using trs tr err by (auto simp: less_Suc_eq)
      have "retry_post operation s0
              (retry_loop operation (attempt + 1) err s' sleeps' (outs @ [err]))"
        apply (rule "1.IH" [OF True sleeps'_def _ _ refl nn tr])
        using op True sl outs' s' trs' err by (simp_all add: retries_def)
      then show ?thesis
        apply (subst retry_loop.simps)
        using True op nn tr by (simp add: sleeps'_def)
    next
      case nt: False
      have len: "length (outs @ [err]) = Suc attempt" using outs by simp
      show ?thesis
        apply (subst retry_loop.simps)
        using True op nt sl outs' s' trs err len
        apply (simp add: retry_post_def retries_def backoff_def sleeps'_def [symmetric] Let_def
            del: upt_Suc)
        apply (auto split: option.splits)
        done
    qed
  qed
qed


text \<open>
  The number of invocations is thereby fixed by the operation: it is the position of
  the first outcome that is not transient, and four when the first three are all
  transient.
\<close>

lemma ExecuteWithRetry_invocations:
  assumes "k < 4" and "\<forall>i < k. isSQLiteTransientError (nth_outcome operation s i)"
    and "\<not> isSQLiteTransientError (nth_outcome operation s k)"
  shows "length (rr_outcomes (ExecuteWithRetry operation s)) = Suc k"
    and "rr_err (ExecuteWithRetry operation s) = nth_outcome operation s k"
    and "rr_state (ExecuteWithRetry operation s) = nth_state operation s (Suc k)"
proof -
  let ?r = "ExecuteWithRetry operation s"
  let ?n = "length (rr_outcomes ?r)"
  have post: "retry_post operation s ?r"
    unfolding ExecuteWithRetry_def by (rule retry_loop_post) (simp_all add: nth_state_0)
  then have n1: "1 \<le> ?n" and n4: "?n \<le> 4"
    and tr: "\<forall>i. Suc i < ?n \<longrightarrow> isSQLiteTransientError (nth_outcome operation s i)"
    and lst: "isSQLiteTransientError (nth_outcome operation s (?n - 1)) \<longrightarrow> ?n = 4"
    and st: "rr_state ?r = nth_state operation s ?n"
    and er: "rr_err ?r = (case nth_outcome operation s (?n - 1) of
                   None \<Rightarrow> None
                 | Some e \<Rightarrow> if isSQLiteTransientError (Some e)
                            then Some (Wrap ''database operation failed after 4 attempts'' e)
                            else Some e)"
    by (simp_all add: retry_post_def Let_def)
  have "\<not> Suc k < ?n" using tr assms(3) by blast
  moreover have "\<not> ?n - 1 < k"
  proof
    assume l: "?n - 1 < k"
    with assms(2) have "isSQLiteTransientError (nth_outcome operation s (?n - 1))" by simp
    with lst have "?n = 4" by simp
    with l assms(1) show False by simp
  qed
  ultimately show n: "?n = Suc k" using n1 by linarith
  from er n assms(3) show "rr_err ?r = nth_outcome operation s k"
    by (auto split: option.splits)
  from st n show "rr_state ?r = nth_state operation s (Suc k)" by simp
qed










section \<open>Verification: claiming the next pending task\<close>

lemma hd_sort_key_min:
  assumes "xs \<noteq> []"
  shows "\<exists>y ys. sort_key f xs = y # ys \<and> y \<in> set xs \<and> (\<forall>u \<in> set xs. f y \<le> f u)"
proof -
  have "length (sort_key f xs) = length xs" by simp
  with assms obtain y ys where e: "sort_key f xs = y # ys"
    by (cases "sort_key f xs") auto
  have s: "sorted (map f (sort_key f xs))" by (rule sorted_sort_key)
  have m: "set (sort_key f xs) = set xs" by simp
  from e m have yin: "y \<in> set xs" by auto
  have "f y \<le> f u" if "u \<in> set xs" for u
  proof -
    from that m e have "u = y \<or> u \<in> set ys" by auto
    with s e show ?thesis by auto
  qed
  with e yin show ?thesis by blast
qed

lemma select_pending_empty: "pending_rows jobID d = [] \<Longrightarrow> select_pending jobID d = []"
  by (simp add: select_pending_def)

lemma select_pending_min:
  assumes "pending_rows jobID d \<noteq> []"
  shows "\<exists>r. select_pending jobID d = [r] \<and> r \<in> set (pending_rows jobID d) \<and>
             (\<forall>u \<in> set (pending_rows jobID d). t_created_at r \<le> t_created_at u)"
  using hd_sort_key_min [OF assms, of t_created_at]
  by (auto simp: select_pending_def)

lemma t_id_scan_task: "t_id (scan_task r) = t_id r"
  by (simp add: scan_task_def)

lemma claim_none:
  "pending_rows jobID d = [] \<Longrightarrow> GetNextPendingTask no_faults now jobID d = (Inr None, d)"
  by (simp add: GetNextPendingTask_def Execute_def select_pending_empty)

lemma claim_step:
  assumes "pending_rows jobID d \<noteq> []"
  shows "\<exists>r \<in> set (pending_rows jobID d).
           (\<forall>u \<in> set (pending_rows jobID d). t_created_at r \<le> t_created_at u) \<and>
           GetNextPendingTask no_faults now jobID d =
             (Inr (Some ((scan_task r)\<lparr>t_status := ''running'', t_started_at := Some now\<rparr>)),
              d\<lparr>tasks := map (mark_running now (t_id r)) (tasks d)\<rparr>)"
proof -
  from assms obtain r where sel: "select_pending jobID d = [r]"
    and rin: "r \<in> set (pending_rows jobID d)"
    and rmin: "\<forall>u \<in> set (pending_rows jobID d). t_created_at r \<le> t_created_at u"
    using select_pending_min by blast
  have "GetNextPendingTask no_faults now jobID d =
          (Inr (Some ((scan_task r)\<lparr>t_status := ''running'', t_started_at := Some now\<rparr>)),
           d\<lparr>tasks := map (mark_running now (t_id r)) (tasks d)\<rparr>)"
    by (simp add: GetNextPendingTask_def Execute_def sel t_id_scan_task)
  with rin rmin show ?thesis by blast
qed

text \<open>
  Two calls one after the other never hand out the same task: the row the first call
  claimed is \<open>running\<close> when the second call selects.
\<close>

lemma sequential_claims_differ:
  assumes "GetNextPendingTask no_faults now jobID d = (Inr (Some t), d1)"
    and "GetNextPendingTask no_faults now' jobID' d1 = (Inr (Some t'), d2)"
  shows "t_id t' \<noteq> t_id t"
proof -
  have p: "pending_rows jobID d \<noteq> []"
    using assms(1) claim_none [of jobID d now] by auto
  from claim_step [OF p, of now] assms(1)
  obtain r where t: "t = (scan_task r)\<lparr>t_status := ''running'', t_started_at := Some now\<rparr>"
    and d1: "d1 = d\<lparr>tasks := map (mark_running now (t_id r)) (tasks d)\<rparr>"
    by auto
  have p': "pending_rows jobID' d1 \<noteq> []"
    using assms(2) claim_none [of jobID' d1 now'] by auto
  from claim_step [OF p', of now'] assms(2)
  obtain r' where r': "r' \<in> set (pending_rows jobID' d1)"
    and t': "t' = (scan_task r')\<lparr>t_status := ''running'', t_started_at := Some now'\<rparr>"
    by auto
  from r' have "r' \<in> set (tasks d1)" and pend: "t_status r' = ''pending''"
    by (simp_all add: pending_rows_def)
  then obtain x where "r' = mark_running now (t_id r) x"
    by (auto simp: d1)
  with pend have "t_id r' \<noteq> t_id r"
    by (auto simp: mark_running_def split: if_splits)
  then show ?thesis
    by (simp add: t t' t_id_scan_task)
qed



section \<open>Verification: recomputing a job's progress\<close>

lemma filter_first_total:
  assumes "\<exists>j \<in> set js. j_id j = jobID"
    and "\<forall>j \<in> set js. j_id j = jobID \<longrightarrow> j_total_tasks j = 0"
  shows "\<exists>j rest. filter (\<lambda>j. j_id j = jobID) js = j # rest \<and> j_total_tasks j = 0"
proof -
  from assms(1) have "filter (\<lambda>j. j_id j = jobID) js \<noteq> []"
    by (simp add: filter_empty_conv)
  then obtain j rest where e: "filter (\<lambda>j. j_id j = jobID) js = j # rest"
    by (cases "filter (\<lambda>j. j_id j = jobID) js") auto
  then have "j \<in> set (filter (\<lambda>j. j_id j = jobID) js)" by simp
  with assms(2) have "j_total_tasks j = 0" by simp
  with e show ?thesis by blast
qed

lemma set_progress_zero_status: "j_status (set_progress now jobID 0 c f j) = j_status j"
  by (simp add: set_progress_def float4_0)

lemma set_progress_zero_completed_at:
  "j_completed_at (set_progress now jobID 0 c f j) = j_completed_at j"
  by (simp add: set_progress_def float4_0)

text \<open>
  Claim C10. For a job whose \<open>total_tasks\<close> is 0, the branch that divides by
  \<open>totalTasks\<close> is not taken: on a database that answers, \<open>UpdateJobProgress\<close> returns
  no error and writes \<open>progress = 0\<close> and the two counts, and nothing else. Whatever
  the database does, the \<open>status\<close> and \<open>completed_at\<close> of every job stay as they were.
\<close>

theorem UpdateJobProgress_zero_total:
  assumes "\<exists>j \<in> set (jobs d). j_id j = jobID"
    and "\<forall>j \<in> set (jobs d). j_id j = jobID \<longrightarrow> j_total_tasks j = 0"
  shows "UpdateJobProgress no_faults now jobID d =
           (None, d\<lparr>jobs := map (\<lambda>j. if j_id j = jobID
                                     then j\<lparr>j_progress := 0,
                                             j_completed_tasks := count_status jobID ''completed'' d,
                                             j_failed_tasks := count_status jobID ''failed'' d\<rparr>
                                     else j) (jobs d)\<rparr>) \<and>
         map j_status (jobs (snd (UpdateJobProgress F now jobID d))) = map j_status (jobs d) \<and>
         map j_completed_at (jobs (snd (UpdateJobProgress F now jobID d))) =
           map j_completed_at (jobs d)"
proof -
  obtain j rest where e: "filter (\<lambda>j. j_id j = jobID) (jobs d) = j # rest"
    and z: "j_total_tasks j = 0"
    using filter_first_total [OF assms] by blast
  have sp: "set_progress now jobID 0 c f =
              (\<lambda>j. if j_id j = jobID
                   then j\<lparr>j_progress := 0, j_completed_tasks := c, j_failed_tasks := f\<rparr>
                   else j)" for c f
    by (rule ext) (simp add: set_progress_def float4_0)
  have a: "UpdateJobProgress no_faults now jobID d =
           (None, d\<lparr>jobs := map (\<lambda>j. if j_id j = jobID
                                     then j\<lparr>j_progress := 0,
                                             j_completed_tasks := count_status jobID ''completed'' d,
                                             j_failed_tasks := count_status jobID ''failed'' d\<rparr>
                                     else j) (jobs d)\<rparr>)"
    by (simp add: UpdateJobProgress_def no_faults_def e z sp)
  have b: "map j_status (jobs (snd (UpdateJobProgress F now jobID d))) = map j_status (jobs d)"
    by (simp add: UpdateJobProgress_def e z set_progress_zero_status comp_def
        split: option.splits)
  have c: "map j_completed_at (jobs (snd (UpdateJobProgress F now jobID d))) =
           map j_completed_at (jobs d)"
    by (simp add: UpdateJobProgress_def e z set_progress_zero_completed_at comp_def
        split: option.splits)
  from a b c show ?thesis by simp
qed

text \<open>A running job without tasks: the update leaves the row as it is.\<close>

theorem UpdateJobProgress_zero_total_witness:
  "j_id (mk_job ''j1'' ''running'' 0 None) = ''j1'' \<and>
   j_total_tasks (mk_job ''j1'' ''running'' 0 None) = 0 \<and>
   UpdateJobProgress no_faults 7 ''j1'' \<lparr>jobs = [mk_job ''j1'' ''running'' 0 None], tasks = []\<rparr> =
     (None, \<lparr>jobs = [mk_job ''j1'' ''running'' 0 None], tasks = []\<rparr>)"
proof -
  let ?d = "\<lparr>jobs = [mk_job ''j1'' ''running'' 0 None], tasks = []\<rparr>"
  have h1: "\<exists>j \<in> set (jobs ?d). j_id j = ''j1''"
    by (simp add: mk_job_def)
  have h2: "\<forall>j \<in> set (jobs ?d). j_id j = ''j1'' \<longrightarrow> j_total_tasks j = 0"
    by (simp add: mk_job_def)
  from UpdateJobProgress_zero_total [OF h1 h2, of 7 no_faults]
  show ?thesis
    by (simp add: mk_job_def count_status_def)
qed

text \<open>
  Claim C1, at a failing input. A cancelled job with one task, which has completed (the
  task was running when the job was cancelled): \<open>UpdateJobProgress\<close> computes a progress
  of 100 and writes \<open>status = completed\<close> and \<open>completed_at = now\<close> over the cancelled
  row. The \<open>UPDATE\<close> has no condition on the current status.
\<close>

theorem UpdateJobProgress_overwrites_cancelled:
  "UpdateJobProgress no_faults 9 ''j1''
     \<lparr>jobs = [mk_job ''j1'' ''cancelled'' 1 (Some 5)],
      tasks = [mk_task ''t1'' ''j1'' ''completed'' 2]\<rparr> =
   (None,
    \<lparr>jobs = [(mk_job ''j1'' ''cancelled'' 1 (Some 5))
               \<lparr>j_progress := 100, j_completed_tasks := 1, j_status := ''completed'',
                j_completed_at := Some 9\<rparr>],
     tasks = [mk_task ''t1'' ''j1'' ''completed'' 2]\<rparr>)"
  by (simp add: UpdateJobProgress_def no_faults_def mk_job_def mk_task_def new_task_def
      count_status_def set_progress_def float64_1 float64_100 float4_100)

text \<open>
  How the program reaches that input: a running job with a single task in flight is
  cancelled at time 5, the task then completes at time 9, and \<open>CompleteTask\<close> recomputes
  the progress.
\<close>

lemma cancel_then_complete:
  "let jm0 = \<lparr>m_db = \<lparr>jobs = [mk_job ''j1'' ''running'' 1 None],
                       tasks = [mk_task ''t1'' ''j1'' ''running'' 2]\<rparr>,
              m_active = {''j1''}\<rparr>;
       jm1 = snd (CancelJob no_faults 5 ''j1'' jm0);
       d2 = snd (CompleteTask no_faults 9 (mk_task ''t1'' ''j1'' ''running'' 2) (m_db jm1))
   in map j_status (jobs (m_db jm1)) = [''cancelled''] \<and>
      map j_completed_at (jobs (m_db jm1)) = [Some 5] \<and>
      map j_status (jobs d2) = [''completed''] \<and>
      map j_completed_at (jobs d2) = [Some 9]"
  by (simp add: Let_def CancelJob_def GetJob_def CompleteTask_def Execute_def
      UpdateJobProgress_def no_faults_def mk_job_def mk_task_def new_task_def
      count_status_def set_progress_def cancel_job_row_def skip_pending_row_def
      complete_row_def RemoveJob_def JobStatusRunning_def JobStatusPending_def
      JobStatusPaused_def JobStatusCancelled_def TaskStatusPending_def TaskStatusSkipped_def
      float64_1 float64_100 float4_100)

text \<open>
  Claim C4, at a failing input. A running job whose only task has completed: the first
  call at time 10 completes the job with \<open>completed_at = 10\<close>; the second call at
  time 20, with the tasks untouched, writes \<open>completed_at = 20\<close>.
\<close>

theorem UpdateJobProgress_twice_restamps:
  "let d0 = \<lparr>jobs = [mk_job ''j1'' ''running'' 1 None],
             tasks = [mk_task ''t1'' ''j1'' ''completed'' 2]\<rparr>;
       d1 = snd (UpdateJobProgress no_faults 10 ''j1'' d0);
       d2 = snd (UpdateJobProgress no_faults 20 ''j1'' d1)
   in map j_status (jobs d1) = [''completed''] \<and>
      map j_completed_at (jobs d1) = [Some 10] \<and>
      map j_completed_at (jobs d2) = [Some 20] \<and>
      tasks d1 = tasks d0 \<and> d2 \<noteq> d1"
  by (simp add: UpdateJobProgress_def no_faults_def mk_job_def mk_task_def new_task_def
      count_status_def set_progress_def Let_def float64_1 float64_100 float4_100)

text \<open>
  What does hold of two calls in a row: while the stored progress stays below 100 the
  second call changes nothing, whatever the clock says.
\<close>

lemma UpdateJobProgress_twice_below_100:
  assumes "UpdateJobProgress no_faults now jobID d = (None, d1)"
    and "\<forall>j \<in> set (jobs d1). j_id j = jobID \<longrightarrow> j_progress j < 100"
  shows "UpdateJobProgress no_faults now' jobID d1 = (None, d1)"
proof -
  from assms(1) obtain j rest where e: "filter (\<lambda>j. j_id j = jobID) (jobs d) = j # rest"
    by (auto simp: UpdateJobProgress_def no_faults_def split: list.splits)
  define p :: rat where
    "p = (if j_total_tasks j > 0
          then float64 (float64 (float64 (of_int (count_status jobID ''completed'' d +
                                                  count_status jobID ''failed'' d)) /
                                  float64 (of_int (j_total_tasks j))) * 100)
          else 0)"
  let ?f = "set_progress now jobID p (count_status jobID ''completed'' d)
              (count_status jobID ''failed'' d)"
  from assms(1) e have d1: "d1 = d\<lparr>jobs := map ?f (jobs d)\<rparr>"
    by (simp add: UpdateJobProgress_def no_faults_def p_def Let_def)
  have "j \<in> set (filter (\<lambda>j. j_id j = jobID) (jobs d))"
    using e by simp
  then have jin: "j \<in> set (jobs d)" and jid: "j_id j = jobID"
    by simp_all
  have "?f j \<in> set (jobs d1)" using jin d1 by simp
  moreover have "j_id (?f j) = jobID" "j_progress (?f j) = float4 p"
    using jid by (simp_all add: set_progress_def)
  ultimately have p: "float4 p < 100" using assms(2) by metis
  have idf: "j_id (?f x) = j_id x" for x by (simp add: set_progress_def)
  have tot: "j_total_tasks (?f x) = j_total_tasks x" for x by (simp add: set_progress_def)
  have flt: "filter (\<lambda>j. j_id j = jobID) (jobs d1) = ?f j # map ?f rest"
    using e by (simp add: d1 filter_map comp_def idf)
  have cnt: "count_status jobID s d1 = count_status jobID s d" for s
    by (simp add: count_status_def d1)
  have twice: "set_progress now' jobID p c f (set_progress now jobID p c f x) =
               set_progress now jobID p c f x" for c f x
    using p by (simp add: set_progress_def)
  have fin: "d1\<lparr>jobs := map (set_progress now' jobID p (count_status jobID ''completed'' d)
                                 (count_status jobID ''failed'' d)) (jobs d1)\<rparr> = d1"
    by (simp add: d1 comp_def twice)
  show ?thesis
    by (simp add: UpdateJobProgress_def no_faults_def flt cnt tot p_def [symmetric] fin)
qed

text \<open>
  The cast to \<open>REAL\<close> decides the comparison with 100: with 29999999 of 30000000
  tasks done the \<open>float64\<close> progress is below 100 and its \<open>REAL\<close> value is 100, so the
  job is completed with one task outstanding.
\<close>

lemma progress_rounds_up_to_100:
  "float64 (float64 (float64 29999999 / float64 30000000) * 100) < 100 \<and>
   float4 (float64 (float64 (float64 29999999 / float64 30000000) * 100)) = 100"
  by code_simp

section \<open>Verification: enqueueing URLs\<close>

lemma insert_loop_effect:
  "i + length pageIDs \<le> length paths \<Longrightarrow>
   insert_loop no_faults now uuid jobID paths sourceType sourceURL depth i pageIDs tx =
     Inr ((), tx\<lparr>tasks := tasks tx @
                 map (\<lambda>(k, p). new_task (uuid k) jobID p (paths ! k) depth now sourceType sourceURL)
                   (filter (\<lambda>(k, p). p \<noteq> 0) (zip [i ..< i + length pageIDs] pageIDs))\<rparr>)"
proof (induction pageIDs arbitrary: i tx)
  case Nil
  then show ?case by simp
next
  case (Cons p ps)
  have u: "[i ..< Suc (i + length ps)] = i # [Suc i ..< Suc (i + length ps)]"
    by (rule upt_conv_Cons) simp
  from Cons.prems have le: "Suc i + length ps \<le> length paths" and lt: "\<not> length paths \<le> i"
    by simp_all
  show ?case
  proof (cases "p = 0")
    case True
    then show ?thesis
      using Cons.IH [OF le] by (simp add: u del: upt_Suc)
  next
    case False
    then show ?thesis
      using Cons.IH [OF le] lt by (simp add: u no_faults_def del: upt_Suc)
  qed
qed

lemma length_filter_zip_snd:
  "length ks = length ps \<Longrightarrow>
   length (filter (\<lambda>(k, p). P p) (zip ks ps)) = length (filter P ps)"
proof (induction ks arbitrary: ps)
  case Nil
  then show ?case by simp
next
  case (Cons k ks)
  then obtain p ps' where "ps = p # ps'" by (cases ps) auto
  with Cons show ?case by simp
qed

text \<open>
  What \<open>EnqueueURLs\<close> does on a database that answers, given a path for every page
  id: \<open>total_tasks\<close> of the job grows by the length of \<open>pageIDs\<close>, and one row with
  status \<open>pending\<close> is appended for each page id that is not 0.
\<close>

lemma EnqueueURLs_effect:
  assumes "pageIDs \<noteq> []" and "length pageIDs \<le> length paths"
  shows "\<exists>rows.
           EnqueueURLs no_faults now uuid jobID pageIDs paths sourceType sourceURL depth d =
             (None, \<lparr>jobs = map (add_total jobID (int (length pageIDs))) (jobs d),
                     tasks = tasks d @ rows\<rparr>) \<and>
           length rows = length (filter (\<lambda>p. p \<noteq> 0) pageIDs) \<and>
           (\<forall>r \<in> set rows. t_status r = ''pending'' \<and> t_job_id r = jobID)"
proof -
  let ?rows = "map (\<lambda>(k, p). new_task (uuid k) jobID p (paths ! k) depth now sourceType sourceURL)
                 (filter (\<lambda>(k, p). p \<noteq> 0) (zip [0 ..< 0 + length pageIDs] pageIDs))"
  have l: "insert_loop no_faults now uuid jobID paths sourceType sourceURL depth 0 pageIDs tx =
             Inr ((), tx\<lparr>tasks := tasks tx @ ?rows\<rparr>)" for tx
    using insert_loop_effect [of 0 pageIDs paths] assms(2) by simp
  have a: "EnqueueURLs no_faults now uuid jobID pageIDs paths sourceType sourceURL depth d =
             (None, \<lparr>jobs = map (add_total jobID (int (length pageIDs))) (jobs d),
                     tasks = tasks d @ ?rows\<rparr>)"
    using assms(1) by (simp add: EnqueueURLs_def Execute_def l)
  have b: "length ?rows = length (filter (\<lambda>p. p \<noteq> 0) pageIDs)"
    using length_filter_zip_snd [of "[0 ..< 0 + length pageIDs]" pageIDs "\<lambda>p. p \<noteq> 0"]
    by simp
  have c: "\<forall>r \<in> set ?rows. t_status r = ''pending'' \<and> t_job_id r = jobID"
    by (auto simp: new_task_def)
  from a b c show ?thesis by blast
qed

text \<open>
  Claim C2, at a failing input. Two page ids, the first of them 0: the loop skips it
  and inserts one row, while \<open>total_tasks\<close> has been raised by two, the length of
  \<open>pageIDs\<close>.
\<close>

theorem EnqueueURLs_counts_skipped_ids:
  "EnqueueURLs no_faults 3 uuid ''j1'' [0, 7] [''/a'', ''/b''] ''link'' ''https://example.com/'' 1
     \<lparr>jobs = [mk_job ''j1'' ''running'' 0 None], tasks = []\<rparr> =
   (None,
    \<lparr>jobs = [mk_job ''j1'' ''running'' 2 None],
     tasks = [new_task (uuid 1) ''j1'' 7 ''/b'' 1 3 ''link'' ''https://example.com/'']\<rparr>)"
  by (simp add: EnqueueURLs_def Execute_def no_faults_def mk_job_def add_total_def)

section \<open>Verification: the serialized writer\<close>

text \<open>
  A unit without a context is never answered: the executor panics on it, before any
  transaction is opened.
\<close>

lemma processOperation_nil_context:
  "Ctx op = None \<Longrightarrow> processOperation F q op = (Panicked, q)"
  by (simp add: processOperation_def)



section \<open>Verification: cancelling a job\<close>

lemma GetJob_id: "GetJob F d jobID = Inr job \<Longrightarrow> j_id job = jobID"
proof -
  assume a: "GetJob F d jobID = Inr job"
  then have "filter (\<lambda>j. j_id j = jobID) (jobs d) \<noteq> []"
    by (auto simp: GetJob_def split: option.splits list.splits)
  with a obtain rest where "filter (\<lambda>j. j_id j = jobID) (jobs d) = job # rest"
    by (auto simp: GetJob_def split: option.splits list.splits)
  then have "job \<in> set (filter (\<lambda>j. j_id j = jobID) (jobs d))" by simp
  then show ?thesis by simp
qed

text \<open>
  Claim C7. When the job's status is none of \<open>pending\<close>, \<open>running\<close>, \<open>paused\<close>,
  \<open>CancelJob\<close> returns an error and the database and the active set are what they
  were, whatever the database does. When it is one of them and the database answers,
  \<open>CancelJob\<close> returns no error, the job's row has status \<open>cancelled\<close> and
  \<open>completed_at = now\<close>, the job is no longer in the pool's active set, every task of
  the job that was \<open>pending\<close> is \<open>skipped\<close>, and every other row is unchanged.
\<close>

theorem CancelJob_effect:
  "(GetJob F (m_db jm) jobID = Inr job \<and>
      j_status job \<notin> {''pending'', ''running'', ''paused''} \<longrightarrow>
        CancelJob F now jobID jm = (Some (Err (''job cannot be canceled: '' @ j_status job)), jm)) \<and>
   (GetJob no_faults (m_db jm) jobID = Inr job \<and>
      j_status job \<in> {''pending'', ''running'', ''paused''} \<longrightarrow>
        CancelJob no_faults now jobID jm =
          (None,
           \<lparr>m_db =
              \<lparr>jobs = map (\<lambda>j. if j_id j = jobID
                                then j\<lparr>j_status := ''cancelled'', j_completed_at := Some now\<rparr>
                                else j) (jobs (m_db jm)),
               tasks = map (\<lambda>t. if t_job_id t = jobID \<and> t_status t = ''pending''
                                 then t\<lparr>t_status := ''skipped''\<rparr>
                                 else t) (tasks (m_db jm))\<rparr>,
            m_active = m_active jm - {jobID}\<rparr>))"
proof (intro conjI impI)
  assume "GetJob F (m_db jm) jobID = Inr job \<and>
      j_status job \<notin> {''pending'', ''running'', ''paused''}"
  then show "CancelJob F now jobID jm =
      (Some (Err (''job cannot be canceled: '' @ j_status job)), jm)"
    by (simp add: CancelJob_def JobStatusRunning_def JobStatusPending_def JobStatusPaused_def)
next
  assume a: "GetJob no_faults (m_db jm) jobID = Inr job \<and>
      j_status job \<in> {''pending'', ''running'', ''paused''}"
  then have i: "j_id job = jobID" using GetJob_id by blast
  have c: "cancel_job_row now jobID =
             (\<lambda>j. if j_id j = jobID
                  then j\<lparr>j_status := ''cancelled'', j_completed_at := Some now\<rparr> else j)"
    by (rule ext) (simp add: cancel_job_row_def JobStatusCancelled_def)
  have s: "skip_pending_row jobID =
             (\<lambda>t. if t_job_id t = jobID \<and> t_status t = ''pending''
                  then t\<lparr>t_status := ''skipped''\<rparr> else t)"
    by (rule ext) (simp add: skip_pending_row_def TaskStatusPending_def TaskStatusSkipped_def)
  from a show "CancelJob no_faults now jobID jm =
          (None,
           \<lparr>m_db =
              \<lparr>jobs = map (\<lambda>j. if j_id j = jobID
                                then j\<lparr>j_status := ''cancelled'', j_completed_at := Some now\<rparr>
                                else j) (jobs (m_db jm)),
               tasks = map (\<lambda>t. if t_job_id t = jobID \<and> t_status t = ''pending''
                                 then t\<lparr>t_status := ''skipped''\<rparr>
                                 else t) (tasks (m_db jm))\<rparr>,
            m_active = m_active jm - {jobID}\<rparr>)"
    unfolding CancelJob_def
    by (auto simp: i c s RemoveJob_def Let_def JobStatusRunning_def JobStatusPending_def
        JobStatusPaused_def)
qed

text \<open>
  A completed job cannot be cancelled. Cancelling a running job with a pending and a
  running task, while another job has a pending task too.
\<close>

theorem CancelJob_effect_witness:
  "CancelJob no_faults 5 ''j1''
     \<lparr>m_db = \<lparr>jobs = [mk_job ''j1'' ''completed'' 1 (Some 4)],
               tasks = [mk_task ''t1'' ''j1'' ''completed'' 2]\<rparr>, m_active = {}\<rparr> =
     (Some (Err ''job cannot be canceled: completed''),
      \<lparr>m_db = \<lparr>jobs = [mk_job ''j1'' ''completed'' 1 (Some 4)],
                tasks = [mk_task ''t1'' ''j1'' ''completed'' 2]\<rparr>, m_active = {}\<rparr>) \<and>
   CancelJob no_faults 5 ''j1''
     \<lparr>m_db = \<lparr>jobs = [mk_job ''j1'' ''running'' 2 None, mk_job ''j2'' ''running'' 1 None],
               tasks = [mk_task ''t1'' ''j1'' ''pending'' 2, mk_task ''t2'' ''j1'' ''running'' 3,
                        mk_task ''t3'' ''j2'' ''pending'' 4]\<rparr>,
      m_active = {''j1'', ''j2''}\<rparr> =
     (None,
      \<lparr>m_db = \<lparr>jobs = [mk_job ''j1'' ''cancelled'' 2 (Some 5), mk_job ''j2'' ''running'' 1 None],
                tasks = [mk_task ''t1'' ''j1'' ''skipped'' 2, mk_task ''t2'' ''j1'' ''running'' 3,
                         mk_task ''t3'' ''j2'' ''pending'' 4]\<rparr>,
       m_active = {''j2''}\<rparr>)"
proof -
  let ?jm1 = "\<lparr>m_db = \<lparr>jobs = [mk_job ''j1'' ''completed'' 1 (Some 4)],
                       tasks = [mk_task ''t1'' ''j1'' ''completed'' 2]\<rparr>, m_active = {}\<rparr>"
  let ?jm2 = "\<lparr>m_db = \<lparr>jobs = [mk_job ''j1'' ''running'' 2 None, mk_job ''j2'' ''running'' 1 None],
               tasks = [mk_task ''t1'' ''j1'' ''pending'' 2, mk_task ''t2'' ''j1'' ''running'' 3,
                        mk_task ''t3'' ''j2'' ''pending'' 4]\<rparr>,
      m_active = {''j1'', ''j2''}\<rparr>"
  have g1: "GetJob no_faults (m_db ?jm1) ''j1'' = Inr (mk_job ''j1'' ''completed'' 1 (Some 4))"
    by (simp add: GetJob_def mk_job_def)
  have s1: "j_status (mk_job ''j1'' ''completed'' 1 (Some 4)) \<notin> {''pending'', ''running'', ''paused''}"
    by (simp add: mk_job_def)
  have a: "CancelJob no_faults 5 ''j1'' ?jm1 =
             (Some (Err ''job cannot be canceled: completed''), ?jm1)"
    using CancelJob_effect [of no_faults ?jm1 "''j1''" "mk_job ''j1'' ''completed'' 1 (Some 4)" 5]
      g1 s1
    by (simp add: mk_job_def)
  have g2: "GetJob no_faults (m_db ?jm2) ''j1'' = Inr (mk_job ''j1'' ''running'' 2 None)"
    by (simp add: GetJob_def mk_job_def)
  have s2: "j_status (mk_job ''j1'' ''running'' 2 None) \<in> {''pending'', ''running'', ''paused''}"
    by (simp add: mk_job_def)
  have b: "CancelJob no_faults 5 ''j1'' ?jm2 =
     (None,
      \<lparr>m_db = \<lparr>jobs = [mk_job ''j1'' ''cancelled'' 2 (Some 5), mk_job ''j2'' ''running'' 1 None],
                tasks = [mk_task ''t1'' ''j1'' ''skipped'' 2, mk_task ''t2'' ''j1'' ''running'' 3,
                         mk_task ''t3'' ''j2'' ''pending'' 4]\<rparr>,
       m_active = {''j2''}\<rparr>)"
    using CancelJob_effect [of no_faults ?jm2 "''j1''" "mk_job ''j1'' ''running'' 2 None" 5]
      g2 s2
    by (auto simp: mk_job_def mk_task_def new_task_def)
  from a b show ?thesis by simp
qed

section \<open>Verification: the completion monitor\<close>

lemma monitor_row_not_due: "\<not> monitor_due (monitor_row now j)"
  by (simp add: monitor_row_def monitor_due_def)

lemma monitor_row_idem: "monitor_row now' (monitor_row now j) = monitor_row now j"
  using monitor_row_not_due [of now j] by (simp add: monitor_row_def [of now'])

text \<open>
  Claim C8. One tick on a database that answers: every job that is \<open>running\<close> with
  \<open>completed_tasks + failed_tasks \<ge> total_tasks\<close> gets status \<open>completed\<close> and
  \<open>completed_at = now\<close>; every other job, in particular every job that is not
  \<open>running\<close>, and every task is unchanged; the returned ids are those of the jobs just
  completed. A further tick, at any time and whatever the database does, changes
  nothing.
\<close>

theorem completion_monitor_tick_effect:
  "let (ids, d') = completion_monitor_tick no_faults now d in
     tasks d' = tasks d \<and> length (jobs d') = length (jobs d) \<and>
     (\<forall>i < length (jobs d).
        (j_status (jobs d ! i) = ''running'' \<and>
         j_completed_tasks (jobs d ! i) + j_failed_tasks (jobs d ! i) \<ge> j_total_tasks (jobs d ! i)
           \<longrightarrow> jobs d' ! i = (jobs d ! i)\<lparr>j_status := ''completed'', j_completed_at := Some now\<rparr>) \<and>
        (j_status (jobs d ! i) \<noteq> ''running'' \<or>
         j_completed_tasks (jobs d ! i) + j_failed_tasks (jobs d ! i) < j_total_tasks (jobs d ! i)
           \<longrightarrow> jobs d' ! i = jobs d ! i)) \<and>
     ids = map j_id (filter (\<lambda>j. j_status j = ''running'' \<and>
                            j_completed_tasks j + j_failed_tasks j \<ge> j_total_tasks j) (jobs d)) \<and>
     snd (completion_monitor_tick F' now' d') = d'"
proof -
  have a: "map (monitor_row now' \<circ> monitor_row now) (jobs d) = map (monitor_row now) (jobs d)"
    by (simp add: comp_def monitor_row_idem)
  have b: "snd (completion_monitor_tick F' now' (d\<lparr>jobs := map (monitor_row now) (jobs d)\<rparr>)) =
           d\<lparr>jobs := map (monitor_row now) (jobs d)\<rparr>"
    using a by (simp add: completion_monitor_tick_def split: option.splits)
  have c: "monitor_due = (\<lambda>j. j_status j = ''running'' \<and>
                            j_completed_tasks j + j_failed_tasks j \<ge> j_total_tasks j)"
    by (rule ext) (auto simp: monitor_due_def)
  show ?thesis
    using b
    by (auto simp: completion_monitor_tick_def monitor_row_def monitor_due_def c)
qed

text \<open>
  Three jobs: one running with all of its tasks accounted for, one running with work
  left, one cancelled.
\<close>

theorem completion_monitor_tick_effect_witness:
  "let d = \<lparr>jobs = [(mk_job ''j1'' ''running'' 2 None)\<lparr>j_completed_tasks := 1, j_failed_tasks := 1\<rparr>,
                    mk_job ''j2'' ''running'' 2 None,
                    mk_job ''j3'' ''cancelled'' 0 (Some 4)],
            tasks = []\<rparr>;
       (ids, d') = completion_monitor_tick no_faults 9 d
   in 0 < length (jobs d) \<and> j_status (jobs d ! 0) = ''running'' \<and>
      j_completed_tasks (jobs d ! 0) + j_failed_tasks (jobs d ! 0) \<ge> j_total_tasks (jobs d ! 0) \<and>
      jobs d' ! 0 = (jobs d ! 0)\<lparr>j_status := ''completed'', j_completed_at := Some 9\<rparr> \<and>
      1 < length (jobs d) \<and>
      j_completed_tasks (jobs d ! 1) + j_failed_tasks (jobs d ! 1) < j_total_tasks (jobs d ! 1) \<and>
      jobs d' ! 1 = jobs d ! 1 \<and>
      2 < length (jobs d) \<and> j_status (jobs d ! 2) \<noteq> ''running'' \<and>
      jobs d' ! 2 = jobs d ! 2 \<and>
      ids = [''j1''] \<and>
      snd (completion_monitor_tick no_faults 20 d') = d'"
  using completion_monitor_tick_effect
    [of 9 "\<lparr>jobs = [(mk_job ''j1'' ''running'' 2 None)\<lparr>j_completed_tasks := 1, j_failed_tasks := 1\<rparr>,
                     mk_job ''j2'' ''running'' 2 None,
                     mk_job ''j3'' ''cancelled'' 0 (Some 4)],
             tasks = []\<rparr>" no_faults 20]
  by (simp add: Let_def completion_monitor_tick_def monitor_row_def monitor_due_def mk_job_def)

end
